theory Spec2Isabelle
  imports Complex_Main "HOL-Library.Option_ord" "HOL-Library.Multiset"
begin

section \<open>Country Currency and Exchange API: the data model\<close>

text \<open>
  The development follows \<^verbatim>\<open>src/main.py\<close>. A Python \<^verbatim>\<open>float\<close> is read as a real
  number: the rounding of float arithmetic and the infinite values are not modelled,
  the conversion of an \<^verbatim>\<open>int\<close> beyond the float range (which raises) is. An \<^verbatim>\<open>int\<close> is
  an \<open>int\<close>, a \<^verbatim>\<open>str\<close> a list of 8-bit characters, and a \<^verbatim>\<open>datetime\<close> a natural number
  of clock ticks.
\<close>

type_synonym datetime = nat

text \<open>A decoded JSON value, as \<^verbatim>\<open>response.json()\<close> builds it.\<close>

datatype json =
    JNull
  | JBool bool
  | JInt int
  | JFloat real
  | JStr string
  | JArray "json list"
  | JObject "(string \<times> json) list"

text \<open>
  What the countries provider sends for one country: the keys read by
  \<^verbatim>\<open>refresh_countries\<close> with \<^verbatim>\<open>country_data.get(...)\<close>. For the keys read without a
  default, and for \<^verbatim>\<open>currencies\<close>, an absent key and a null value behave alike and are
  both \<open>None\<close>. The key \<^verbatim>\<open>population\<close> is read with the default 0, which replaces an
  absent key only: \<open>None\<close> is the absent key, and a present value is any JSON value,
  \<open>JNull\<close> included. The name, capital, region and flag are strings when present, and the
  currency list is a list of objects whose \<^verbatim>\<open>code\<close> is a string when present; a payload
  of another shape is outside the model.
\<close>

record currency =
  code :: "string option"

record raw_country =
  raw_name :: "string option"
  raw_capital :: "string option"
  raw_region :: "string option"
  raw_population :: "json option"
  raw_currencies :: "currency list option"
  raw_flag :: "string option"

text \<open>The \<^verbatim>\<open>country_doc\<close> dictionary of lines 179-189 (the fields of class \<^verbatim>\<open>Country\<close>).\<close>

record country_doc =
  name :: "string option"
  capital :: "string option"
  region :: "string option"
  population :: json
  currency_code :: "string option"
  exchange_rate :: "real option"
  estimated_gdp :: "real option"
  flag_url :: "string option"
  last_refreshed_at :: datetime

text \<open>The envelope of the rates provider: only its key \<^verbatim>\<open>rates\<close> is read.\<close>

record rates_envelope =
  rates :: "(string \<rightharpoonup> real) option"

subsection \<open>Exceptions\<close>

text \<open>The \<^verbatim>\<open>detail\<close> dictionary of an \<^verbatim>\<open>HTTPException\<close>; the key \<^verbatim>\<open>details\<close> is optional.\<close>

record error_detail =
  error :: string
  details :: "string option"

datatype exn =
    HTTPException nat error_detail
  | JSONDecodeError string
  | IndexError
  | KeyError string
  | ZeroDivisionError
  | TypeError
  | OverflowError
  | OperationFailure string

text \<open>\<^verbatim>\<open>str(e)\<close>, as the handler of \<^verbatim>\<open>refresh_countries\<close> puts it into the 500 response.\<close>

fun str_exn :: "exn \<Rightarrow> string" where
  "str_exn (HTTPException status d) = error d"
| "str_exn (JSONDecodeError msg) = msg"
| "str_exn IndexError = ''list index out of range''"
| "str_exn (KeyError k) = k"
| "str_exn ZeroDivisionError = ''float division by zero''"
| "str_exn TypeError = ''unsupported operand type(s) for *''"
| "str_exn OverflowError = ''int too large to convert to float''"
| "str_exn (OperationFailure msg) = msg"

subsection \<open>The two source clients\<close>

text \<open>
  What the three calls in the \<^verbatim>\<open>try\<close> block of a fetcher (\<^verbatim>\<open>client.get\<close>,
  \<^verbatim>\<open>raise_for_status\<close>, \<^verbatim>\<open>response.json\<close>) come to: an \<^verbatim>\<open>httpx.HTTPError\<close> (timeout,
  transport error, status that is not 2xx) with its message, a body that is not JSON
  (\<^verbatim>\<open>response.json\<close> raises a \<^verbatim>\<open>ValueError\<close>, which is no \<^verbatim>\<open>httpx.HTTPError\<close>), or the
  decoded payload.
\<close>

datatype 'a http_result = HTTPError string | InvalidJSON string | Json 'a

definition fetch_countries_data :: "raw_country list http_result \<Rightarrow> exn + raw_country list" where
  "fetch_countries_data response =
     (case response of
        HTTPError e \<Rightarrow>
          Inl (HTTPException 503
            \<lparr>error = ''External data source unavailable'',
             details = Some (''Could not fetch data from restcountries.com: '' @ e)\<rparr>)
      | InvalidJSON msg \<Rightarrow> Inl (JSONDecodeError msg)
      | Json payload \<Rightarrow> Inr payload)"

definition fetch_exchange_rates :: "rates_envelope http_result \<Rightarrow> exn + (string \<rightharpoonup> real)" where
  "fetch_exchange_rates response =
     (case response of
        HTTPError e \<Rightarrow>
          Inl (HTTPException 503
            \<lparr>error = ''External data source unavailable'',
             details = Some (''Could not fetch data from open.er-api.com: '' @ e)\<rparr>)
      | InvalidJSON msg \<Rightarrow> Inl (JSONDecodeError msg)
      | Json data \<Rightarrow> Inr (case rates data of None \<Rightarrow> Map.empty | Some m \<Rightarrow> m))"

subsection \<open>The derived metric\<close>

text \<open>
  Python's partial operations, with the exception each raises: \<^verbatim>\<open>a / b\<close> on floats,
  \<^verbatim>\<open>xs[0]\<close> and \<^verbatim>\<open>d[k]\<close>.
\<close>

definition truediv :: "real \<Rightarrow> real \<Rightarrow> exn + real" where
  "truediv a b = (if b = 0 then Inl ZeroDivisionError else Inr (a / b))"

definition getitem0 :: "'a list \<Rightarrow> exn + 'a" where
  "getitem0 xs = (case xs of [] \<Rightarrow> Inl IndexError | x # _ \<Rightarrow> Inr x)"

definition dict_getitem :: "(string \<rightharpoonup> 'v) \<Rightarrow> string \<Rightarrow> exn + 'v" where
  "dict_getitem d k = (case d k of None \<Rightarrow> Inl (KeyError k) | Some v \<Rightarrow> Inr v)"

text \<open>
  The conversion of an \<^verbatim>\<open>int\<close> to a \<^verbatim>\<open>float\<close> rounds to the nearest float and raises
  \<^verbatim>\<open>OverflowError\<close> when that is beyond the largest one, \<open>2^1024 - 2^971\<close>: from
  \<open>2^1024 - 2^970\<close> on.
\<close>

definition float_of_int :: "int \<Rightarrow> exn + real" where
  "float_of_int n =
     (if \<bar>n\<bar> < 2 ^ 1024 - 2 ^ 970 then Inr (of_int n) else Inl OverflowError)"

text \<open>\<^verbatim>\<open>x * f\<close> for a JSON value \<open>x\<close> and a float \<open>f\<close>: a number is multiplied (a
  boolean counts as 0 or 1), any other value raises \<^verbatim>\<open>TypeError\<close>.\<close>

fun mul_float :: "json \<Rightarrow> real \<Rightarrow> exn + real" where
  "mul_float (JInt n) f =
     (case float_of_int n of Inl e \<Rightarrow> Inl e | Inr x \<Rightarrow> Inr (x * f))"
| "mul_float (JFloat x) f = Inr (x * f)"
| "mul_float (JBool b) f = Inr ((if b then 1 else 0) * f)"
| "mul_float JNull f = Inl TypeError"
| "mul_float (JStr s) f = Inl TypeError"
| "mul_float (JArray xs) f = Inl TypeError"
| "mul_float (JObject kvs) f = Inl TypeError"

text \<open>
  \<^verbatim>\<open>random.uniform(a, b)\<close> computes \<^verbatim>\<open>a + (b - a) * random()\<close> with \<^verbatim>\<open>random()\<close> in
  \<open>[0, 1)\<close>. The sum is rounded, and the library documents that the result \<open>N\<close> satisfies
  \<open>a \<le> N \<le> b\<close> and may be the end point \<open>b\<close> (for \<open>a = 1000\<close>, \<open>b = 2000\<close> the largest
  value of \<^verbatim>\<open>random()\<close> gives 2000.0). The random source is therefore the position of the
  result in the interval, a number of the closed unit interval.
\<close>

typedef unit_interval = "{t :: real. 0 \<le> t \<and> t \<le> 1}"
  by (rule exI [of _ 0]) simp

setup_lifting type_definition_unit_interval

lift_definition position :: "unit_interval \<Rightarrow> real" is "\<lambda>t. t" .

lift_definition midpoint :: unit_interval is "1 / 2"
  by simp

lift_definition end_point :: unit_interval is "1"
  by simp

definition uniform :: "real \<Rightarrow> real \<Rightarrow> unit_interval \<Rightarrow> real" where
  "uniform a b t = a + (b - a) * position t"

text \<open>
  \<^verbatim>\<open>calculate_estimated_gdp\<close>. The sequence \<open>draws\<close> holds the random source of the
  successive calls of \<^verbatim>\<open>random.uniform\<close>; \<open>k\<close> counts the calls made so far, and the new
  count is returned with the result. The population is the value that the caller read
  from the payload.
\<close>

definition calculate_estimated_gdp ::
  "(nat \<Rightarrow> unit_interval) \<Rightarrow> nat \<Rightarrow> json \<Rightarrow> real option \<Rightarrow> (exn + real option) \<times> nat" where
  "calculate_estimated_gdp draws k population_arg exchange_rate_arg =
     (case exchange_rate_arg of
        None \<Rightarrow> (Inr None, k)
      | Some r \<Rightarrow>
          if r = 0 then (Inr None, k)
          else
            (let random_multiplier = uniform 1000 2000 (draws k) in
             (case mul_float population_arg random_multiplier of
                Inl e \<Rightarrow> (Inl e, Suc k)
              | Inr product \<Rightarrow>
                  (case truediv product r of
                     Inl e \<Rightarrow> (Inl e, Suc k)
                   | Inr g \<Rightarrow> (Inr (Some g), Suc k)))))"

text \<open>
  The body of the loop of \<^verbatim>\<open>refresh_countries\<close> up to the \<^verbatim>\<open>country_doc\<close> dictionary
  (lines 165-189): the merge and derivation step for one country.
\<close>

definition process_country ::
  "(string \<rightharpoonup> real) \<Rightarrow> datetime \<Rightarrow> (nat \<Rightarrow> unit_interval) \<Rightarrow> nat \<Rightarrow> raw_country
     \<Rightarrow> (exn + country_doc) \<times> nat" where
  "process_country exchange_rates refresh_timestamp draws k country_data =
     (let currencies = (case raw_currencies country_data of None \<Rightarrow> [] | Some cs \<Rightarrow> cs);
          population_or_0 =
            (case raw_population country_data of None \<Rightarrow> JInt 0 | Some p \<Rightarrow> p);
          doc = (\<lambda>cc er gdp.
            \<lparr>name = raw_name country_data,
             capital = raw_capital country_data,
             region = raw_region country_data,
             population = population_or_0,
             currency_code = cc,
             exchange_rate = er,
             estimated_gdp = gdp,
             flag_url = raw_flag country_data,
             last_refreshed_at = refresh_timestamp\<rparr>)
      in
      if currencies \<noteq> [] \<and> length currencies > 0 then
        (case getitem0 currencies of
           Inl e \<Rightarrow> (Inl e, k)
         | Inr first_currency \<Rightarrow>
             (case code first_currency of
                None \<Rightarrow> (Inr (doc None None (Some 0)), k)
              | Some cc \<Rightarrow>
                  if cc \<noteq> [] \<and> exchange_rates cc \<noteq> None then
                    (case dict_getitem exchange_rates cc of
                       Inl e \<Rightarrow> (Inl e, k)
                     | Inr r \<Rightarrow>
                         (case calculate_estimated_gdp draws k population_or_0 (Some r) of
                            (Inl e, k') \<Rightarrow> (Inl e, k')
                          | (Inr gdp, k') \<Rightarrow> (Inr (doc (Some cc) (Some r) gdp), k')))
                  else (Inr (doc (Some cc) None (Some 0)), k)))
      else (Inr (doc None None (Some 0)), k))"

subsection \<open>The store's case-insensitive pattern match\<close>

text \<open>
  Every lookup of the program is a query \<^verbatim>\<open>{"$regex": f"^{x}$", "$options": "i"}\<close>: the
  string \<open>x\<close> is pasted into a regular expression unescaped. The store's regular
  expression engine is modelled on a fragment of its pattern language: a pattern
  \<^verbatim>\<open>^body$\<close> whose body is made of literal characters, the wildcard \<^verbatim>\<open>.\<close> (any character
  but a newline) and plain groups \<^verbatim>\<open>( )\<close>, which group without changing what is matched.
  A body with any other metacharacter lies outside the fragment: the model gives no
  answer for it (\<open>None\<close>). Inside the fragment, a pattern with unbalanced parentheses is
  rejected by the engine, so the driver raises \<^verbatim>\<open>OperationFailure\<close>; otherwise the pattern
  matches a subject as the engine does on ASCII text: letters compare without case, and
  \<^verbatim>\<open>$\<close> matches at the end of the subject or before a final newline. Characters
  outside ASCII are compared as they are: the store also folds the case of letters
  outside ASCII, which the model does not follow, so on text with such letters the
  model is not the store. The statements below that evaluate a lookup use ASCII text.
\<close>

datatype rx_item = Lit char | Dot

definition newline :: char where
  "newline = CHR 0x0A"

definition unmodelled_char :: "char \<Rightarrow> bool" where
  "unmodelled_char c =
     (c \<in> set [CHR 0x5C, CHR ''^'', CHR ''$'', CHR ''|'', CHR ''?'', CHR ''*'', CHR ''+'',
                CHR ''['', CHR '']'', CHR ''{'', CHR ''}'', CHR 0x00])"

definition metachar :: "char \<Rightarrow> bool" where
  "metachar c = (unmodelled_char c \<or> c \<in> set [CHR ''.'', CHR ''('', CHR '')''])"

definition ascii_lower :: "char \<Rightarrow> char" where
  "ascii_lower c =
     (case map_of (zip ''ABCDEFGHIJKLMNOPQRSTUVWXYZ'' ''abcdefghijklmnopqrstuvwxyz'') c of
        None \<Rightarrow> c
      | Some l \<Rightarrow> l)"

text \<open>Case-insensitive exact comparison of two strings.\<close>

definition ci_equal :: "string \<Rightarrow> string \<Rightarrow> bool" where
  "ci_equal s t = (map ascii_lower s = map ascii_lower t)"

text \<open>The items of a body, read left to right at group depth \<open>d\<close>; \<open>None\<close> when the
  parentheses do not balance.\<close>

fun compile_body :: "string \<Rightarrow> nat \<Rightarrow> rx_item list option" where
  "compile_body [] d = (if d = 0 then Some [] else None)"
| "compile_body (c # cs) d =
     (if c = CHR ''('' then compile_body cs (Suc d)
      else if c = CHR '')'' then (case d of 0 \<Rightarrow> None | Suc d' \<Rightarrow> compile_body cs d')
      else map_option ((#) (if c = CHR ''.'' then Dot else Lit c)) (compile_body cs d))"

definition compile_regex :: "string \<Rightarrow> (exn + rx_item list) option" where
  "compile_regex pattern =
     (case pattern of
        [] \<Rightarrow> None
      | c # rest \<Rightarrow>
          if c = CHR ''^'' \<and> rest \<noteq> [] \<and> last rest = CHR ''$'' then
            (if list_ex unmodelled_char (butlast rest) then None
             else
               (case compile_body (butlast rest) 0 of
                  None \<Rightarrow> Some (Inl (OperationFailure ''Regular expression is invalid''))
                | Some items \<Rightarrow> Some (Inr items)))
          else None)"

fun item_matches :: "rx_item \<Rightarrow> char \<Rightarrow> bool" where
  "item_matches (Lit a) c = (ascii_lower a = ascii_lower c)"
| "item_matches Dot c = (c \<noteq> newline)"

fun match_items :: "rx_item list \<Rightarrow> string \<Rightarrow> bool" where
  "match_items [] s = (s = [] \<or> s = [newline])"
| "match_items (i # items) [] = False"
| "match_items (i # items) (c # cs) = (item_matches i c \<and> match_items items cs)"

text \<open>A pattern condition on a field holds only of a field that holds a string.\<close>

definition field_matches :: "rx_item list \<Rightarrow> string option \<Rightarrow> bool" where
  "field_matches items v = (case v of None \<Rightarrow> False | Some s \<Rightarrow> match_items items s)"

text \<open>\<^verbatim>\<open>f"^{x}$"\<close>; the f-string writes \<^verbatim>\<open>None\<close> as the four letters \<^verbatim>\<open>None\<close>.\<close>

definition anchored :: "string \<Rightarrow> string" where
  "anchored x = CHR ''^'' # x @ [CHR ''$'']"

definition format_name :: "string option \<Rightarrow> string" where
  "format_name v = (case v of None \<Rightarrow> ''None'' | Some s \<Rightarrow> s)"

subsection \<open>The persistent state\<close>

text \<open>What \<^verbatim>\<open>generate_summary_image\<close> draws: the total, the timestamp and the top-five
  lines (the drawing itself and the number format are the image library's).\<close>

record summary =
  summary_total :: nat
  summary_timestamp :: datetime
  summary_top :: "country_doc list"

text \<open>
  The collection \<^verbatim>\<open>db.countries\<close> in the store's native order, each document with its
  \<^verbatim>\<open>_id\<close>; the \<^verbatim>\<open>last_refreshed_at\<close> of the document \<^verbatim>\<open>global\<close> of \<^verbatim>\<open>db.metadata\<close>, if that
  document exists; the file \<^verbatim>\<open>cache/summary.png\<close>, if it exists; the next fresh \<^verbatim>\<open>_id\<close>.
\<close>

type_synonym stored = "nat \<times> country_doc"

record world =
  countries_collection :: "stored list"
  metadata_collection :: "datetime option"
  summary_png :: "summary option"
  next_id :: nat

text \<open>\<^verbatim>\<open>update_one(filter, {"$set": doc}, upsert=True)\<close>: the first document that
  matches takes the new fields and keeps its \<^verbatim>\<open>_id\<close>; with no match the document is
  inserted.\<close>

fun upsert :: "(country_doc \<Rightarrow> bool) \<Rightarrow> country_doc \<Rightarrow> nat \<Rightarrow> stored list \<Rightarrow> stored list" where
  "upsert p d fresh [] = [(fresh, d)]"
| "upsert p d fresh (x # xs) =
     (if p (snd x) then (fst x, d) # xs else x # upsert p d fresh xs)"

definition update_one_upsert :: "string \<Rightarrow> country_doc \<Rightarrow> world \<Rightarrow> (exn + world) option" where
  "update_one_upsert pattern d w =
     (case compile_regex pattern of
        None \<Rightarrow> None
      | Some (Inl e) \<Rightarrow> Some (Inl e)
      | Some (Inr items) \<Rightarrow>
          Some (Inr (w\<lparr>countries_collection :=
                          upsert (\<lambda>x. field_matches items (name x)) d (next_id w)
                            (countries_collection w),
                        next_id := Suc (next_id w)\<rparr>)))"

subsection \<open>The summary artifact\<close>

text \<open>
  \<^verbatim>\<open>sorted(xs, key=f, reverse=True)\<close>: the interpreter reverses the list, sorts it
  stably by ascending key and reverses the result, so that records with equal keys keep
  their order. The keys are the \<^verbatim>\<open>estimated_gdp\<close> values; \<^verbatim>\<open>None\<close> never reaches the
  comparison, since the list is filtered first.
\<close>

definition sorted_reverse :: "('a \<Rightarrow> 'k::linorder) \<Rightarrow> 'a list \<Rightarrow> 'a list" where
  "sorted_reverse f xs = rev (sort_key f (rev xs))"

definition sorted_countries :: "country_doc list \<Rightarrow> country_doc list" where
  "sorted_countries countries =
     take 5 (sorted_reverse estimated_gdp [c \<leftarrow> countries. estimated_gdp c \<noteq> None])"

definition generate_summary_image :: "country_doc list \<Rightarrow> datetime \<Rightarrow> summary" where
  "generate_summary_image countries ts =
     \<lparr>summary_total = length countries,
      summary_timestamp = ts,
      summary_top = sorted_countries countries\<rparr>"

subsection \<open>The refresh orchestrator\<close>

text \<open>
  What one call of \<^verbatim>\<open>refresh_countries\<close> reads from outside: the outcome of each of the
  two HTTP calls, the value of \<^verbatim>\<open>datetime.utcnow()\<close> at line 161 (the only reading of the
  clock), and the random source of the calls of \<^verbatim>\<open>random.uniform\<close>.
\<close>

record env =
  countries_http :: "raw_country list http_result"
  rates_http :: "rates_envelope http_result"
  utcnow :: datetime
  uniform_draws :: "nat \<Rightarrow> unit_interval"

record refresh_response =
  message :: string
  total_countries :: nat
  timestamp :: datetime

text \<open>
  The loop of lines 164-198. An exception leaves the loop at once; what was written
  before it stays written. The result is \<open>None\<close> when a name gives a pattern outside the
  modelled fragment.
\<close>

fun upsert_all ::
  "(string \<rightharpoonup> real) \<Rightarrow> datetime \<Rightarrow> (nat \<Rightarrow> unit_interval) \<Rightarrow> raw_country list \<Rightarrow> nat
     \<Rightarrow> country_doc list \<Rightarrow> world \<Rightarrow> ((exn + country_doc list) \<times> world) option" where
  "upsert_all exchange_rates ts draws [] k processed_countries w =
     Some (Inr processed_countries, w)"
| "upsert_all exchange_rates ts draws (country_data # rest) k processed_countries w =
     (case process_country exchange_rates ts draws k country_data of
        (Inl e, k') \<Rightarrow> Some (Inl e, w)
      | (Inr country_doc, k') \<Rightarrow>
          (case update_one_upsert (anchored (format_name (raw_name country_data)))
                  country_doc w of
             None \<Rightarrow> None
           | Some (Inl e) \<Rightarrow> Some (Inl e, w)
           | Some (Inr w') \<Rightarrow>
               upsert_all exchange_rates ts draws rest k'
                 (processed_countries @ [country_doc]) w'))"

text \<open>The two \<^verbatim>\<open>except\<close> clauses of \<^verbatim>\<open>refresh_countries\<close>.\<close>

definition refresh_handler :: "exn \<Rightarrow> exn" where
  "refresh_handler e =
     (case e of
        HTTPException status d \<Rightarrow> e
      | _ \<Rightarrow> HTTPException 500 \<lparr>error = ''Internal server error'', details = Some (str_exn e)\<rparr>)"

definition refresh_countries :: "env \<Rightarrow> world \<Rightarrow> ((exn + refresh_response) \<times> world) option" where
  "refresh_countries e w =
     (case fetch_countries_data (countries_http e) of
        Inl ex \<Rightarrow> Some (Inl (refresh_handler ex), w)
      | Inr countries_data \<Rightarrow>
          (case fetch_exchange_rates (rates_http e) of
             Inl ex \<Rightarrow> Some (Inl (refresh_handler ex), w)
           | Inr exchange_rates \<Rightarrow>
               (let refresh_timestamp = utcnow e in
                (case upsert_all exchange_rates refresh_timestamp (uniform_draws e)
                        countries_data 0 [] w of
                   None \<Rightarrow> None
                 | Some (Inl ex, w1) \<Rightarrow> Some (Inl (refresh_handler ex), w1)
                 | Some (Inr processed_countries, w1) \<Rightarrow>
                     (let w2 = w1\<lparr>metadata_collection := Some refresh_timestamp\<rparr>;
                          w3 = w2\<lparr>summary_png :=
                                 Some (generate_summary_image processed_countries
                                         refresh_timestamp)\<rparr>
                      in Some (Inr \<lparr>message = ''Countries data refreshed successfully'',
                                    total_countries = length processed_countries,
                                    timestamp = refresh_timestamp\<rparr>, w3))))))"

subsection \<open>The query surface\<close>

text \<open>
  \<^verbatim>\<open>get_countries\<close>. A query parameter that is absent or empty is falsy and adds no
  condition. The response renames \<^verbatim>\<open>_id\<close> to \<^verbatim>\<open>id\<close>; the pair is kept as it is.
\<close>

definition query_condition :: "string option \<Rightarrow> string option" where
  "query_condition param =
     (case param of None \<Rightarrow> None | Some x \<Rightarrow> if x \<noteq> [] then Some (anchored x) else None)"

datatype sort_field = Sort_estimated_gdp | Sort_population

definition sort_criteria :: "string option \<Rightarrow> (sort_field \<times> int) list" where
  "sort_criteria sort_param =
     (case sort_param of
        None \<Rightarrow> []
      | Some s \<Rightarrow>
          if s = [] then []
          else if s = ''gdp_desc'' then [(Sort_estimated_gdp, -1)]
          else if s = ''gdp_asc'' then [(Sort_estimated_gdp, 1)]
          else if s = ''population_desc'' then [(Sort_population, -1)]
          else if s = ''population_asc'' then [(Sort_population, 1)]
          else [])"

text \<open>\<^verbatim>\<open>find(query)\<close>: the documents that meet every condition, in the store's order.\<close>

definition compile_condition :: "string option \<Rightarrow> (exn + (string option \<Rightarrow> bool)) option" where
  "compile_condition cond =
     (case cond of
        None \<Rightarrow> Some (Inr (\<lambda>v. True))
      | Some pattern \<Rightarrow>
          (case compile_regex pattern of
             None \<Rightarrow> None
           | Some (Inl e) \<Rightarrow> Some (Inl e)
           | Some (Inr items) \<Rightarrow> Some (Inr (field_matches items))))"

definition find_query ::
  "string option \<Rightarrow> string option \<Rightarrow> stored list \<Rightarrow> (exn + stored list) option" where
  "find_query region_cond currency_cond docs =
     (case compile_condition region_cond of
        None \<Rightarrow> None
      | Some (Inl e) \<Rightarrow> Some (Inl e)
      | Some (Inr region_ok) \<Rightarrow>
          (case compile_condition currency_cond of
             None \<Rightarrow> None
           | Some (Inl e) \<Rightarrow> Some (Inl e)
           | Some (Inr currency_ok) \<Rightarrow>
               Some (Inr [x \<leftarrow> docs.
                            region_ok (region (snd x)) \<and> currency_ok (currency_code (snd x))])))"

text \<open>\<^verbatim>\<open>cursor.sort\<close> on one key; a missing value sorts lowest. Among documents with
  equal keys the store promises no order; the model keeps theirs. The store's order
  between numbers and values of other types is not modelled: sorting by a population
  that is neither null nor a number gives no answer (\<open>None\<close>).\<close>

definition number_key :: "json \<Rightarrow> real option" where
  "number_key v = (case v of JInt n \<Rightarrow> Some (of_int n) | JFloat x \<Rightarrow> Some x | _ \<Rightarrow> None)"

definition null_or_number :: "json \<Rightarrow> bool" where
  "null_or_number v =
     (case v of JNull \<Rightarrow> True | JInt n \<Rightarrow> True | JFloat x \<Rightarrow> True | _ \<Rightarrow> False)"

definition cursor_sort :: "sort_field \<times> int \<Rightarrow> stored list \<Rightarrow> stored list option" where
  "cursor_sort criterion docs =
     (case criterion of
        (Sort_estimated_gdp, d) \<Rightarrow>
          Some (if d = 1 then sort_key (\<lambda>x. estimated_gdp (snd x)) docs
                else sorted_reverse (\<lambda>x. estimated_gdp (snd x)) docs)
      | (Sort_population, d) \<Rightarrow>
          if list_all (\<lambda>x. null_or_number (population (snd x))) docs then
            Some (if d = 1 then sort_key (\<lambda>x. number_key (population (snd x))) docs
                  else sorted_reverse (\<lambda>x. number_key (population (snd x))) docs)
          else None)"

definition get_countries ::
  "world \<Rightarrow> string option \<Rightarrow> string option \<Rightarrow> string option \<Rightarrow> (exn + stored list) option" where
  "get_countries w region_param currency_param sort_param =
     (case find_query (query_condition region_param) (query_condition currency_param)
             (countries_collection w) of
        None \<Rightarrow> None
      | Some (Inl e) \<Rightarrow>
          Some (Inl (HTTPException 500 \<lparr>error = ''Internal server error'', details = None\<rparr>))
      | Some (Inr cursor) \<Rightarrow>
          (case sort_criteria sort_param of
             [] \<Rightarrow> Some (Inr cursor)
           | criterion # _ \<Rightarrow> map_option Inr (cursor_sort criterion cursor)))"

text \<open>\<^verbatim>\<open>get_country\<close>: \<^verbatim>\<open>find_one\<close> gives the first matching document.\<close>

definition get_country :: "world \<Rightarrow> string \<Rightarrow> (exn + stored) option" where
  "get_country w name_param =
     (case compile_regex (anchored name_param) of
        None \<Rightarrow> None
      | Some (Inl e) \<Rightarrow>
          Some (Inl (HTTPException 500 \<lparr>error = ''Internal server error'', details = None\<rparr>))
      | Some (Inr items) \<Rightarrow>
          (case List.find (\<lambda>x. field_matches items (name (snd x))) (countries_collection w) of
             None \<Rightarrow> Some (Inl (HTTPException 404 \<lparr>error = ''Country not found'', details = None\<rparr>))
           | Some country \<Rightarrow> Some (Inr country)))"

section \<open>Predicates and inputs used in the statements\<close>

text \<open>
  What the merge step does to the two derived fields of a record, given the rate
  mapping: \<^verbatim>\<open>exchange_rate\<close> is the mapping's entry for the stored currency code (empty
  when there is no code, the code is the empty string or the mapping has no entry);
  \<^verbatim>\<open>estimated_gdp\<close> is the number 0 when \<^verbatim>\<open>exchange_rate\<close> is empty, empty when the rate
  is exactly zero, and a number otherwise.
\<close>

definition merge_rule :: "(string \<rightharpoonup> real) \<Rightarrow> country_doc \<Rightarrow> bool" where
  "merge_rule exchange_rates d =
     (exchange_rate d =
        (case currency_code d of
           None \<Rightarrow> None
         | Some cc \<Rightarrow> if cc = [] then None else exchange_rates cc) \<and>
      (case exchange_rate d of
         None \<Rightarrow> estimated_gdp d = Some 0
       | Some r \<Rightarrow> if r = 0 then estimated_gdp d = None else estimated_gdp d \<noteq> None))"

text \<open>A record is produced by the cycle when the merge step yields it for a country of
  the payload.\<close>

definition produced ::
  "(string \<rightharpoonup> real) \<Rightarrow> datetime \<Rightarrow> (nat \<Rightarrow> unit_interval) \<Rightarrow> raw_country list
     \<Rightarrow> country_doc \<Rightarrow> bool" where
  "produced xr ts u cs d = (\<exists>c\<in>set cs. \<exists>j. fst (process_country xr ts u j c) = Inr d)"

definition strictly_positive :: "real option \<Rightarrow> bool" where
  "strictly_positive v = (case v of None \<Rightarrow> False | Some g \<Rightarrow> 0 < g)"

text \<open>The population that the merge step reads, and the values that \<^verbatim>\<open>* float\<close>
  accepts: an integer within the float range, a float, a boolean.\<close>

definition read_population :: "raw_country \<Rightarrow> json" where
  "read_population c = (case raw_population c of None \<Rightarrow> JInt 0 | Some p \<Rightarrow> p)"

definition multipliable :: "json \<Rightarrow> bool" where
  "multipliable v =
     (case v of
        JInt n \<Rightarrow> \<bar>n\<bar> < 2 ^ 1024 - 2 ^ 970
      | JFloat x \<Rightarrow> True
      | JBool b \<Rightarrow> True
      | _ \<Rightarrow> False)"

text \<open>The rate that the merge step finds for a country: the mapping's entry for the
  first currency's code, when that code is a non-empty string.\<close>

definition first_rate :: "(string \<rightharpoonup> real) \<Rightarrow> raw_country \<Rightarrow> real option" where
  "first_rate exchange_rates c =
     (case raw_currencies c of
        None \<Rightarrow> None
      | Some [] \<Rightarrow> None
      | Some (first_currency # others) \<Rightarrow>
          (case code first_currency of
             None \<Rightarrow> None
           | Some cc \<Rightarrow> if cc = [] then None else exchange_rates cc))"

text \<open>The name of every country of the payload gives a pattern that the store accepts.\<close>

definition names_accepted :: "raw_country list \<Rightarrow> bool" where
  "names_accepted cs =
     list_all (\<lambda>c. case compile_regex (anchored (format_name (raw_name c))) of
                      Some (Inr items) \<Rightarrow> True | _ \<Rightarrow> False) cs"

text \<open>A query parameter read as a case-insensitive exact filter on a field.\<close>

definition exact_filter :: "string option \<Rightarrow> string option \<Rightarrow> bool" where
  "exact_filter param v =
     (case param of
        None \<Rightarrow> True
      | Some p \<Rightarrow> if p = [] then True
                  else (case v of None \<Rightarrow> False | Some s \<Rightarrow> ci_equal p s))"

definition plain_param :: "string option \<Rightarrow> bool" where
  "plain_param param = (case param of None \<Rightarrow> True | Some p \<Rightarrow> \<not> list_ex metachar p)"

definition no_final_newline :: "string option \<Rightarrow> bool" where
  "no_final_newline v = (case v of None \<Rightarrow> True | Some s \<Rightarrow> s = [] \<or> last s \<noteq> newline)"

definition recognised_sorts :: "string list" where
  "recognised_sorts = [''gdp_desc'', ''gdp_asc'', ''population_desc'', ''population_asc'']"

subsection \<open>Concrete inputs\<close>

definition empty_world :: world where
  "empty_world =
     \<lparr>countries_collection = [], metadata_collection = None, summary_png = None, next_id = 0\<rparr>"

definition country_of :: "string \<Rightarrow> string \<Rightarrow> int \<Rightarrow> string \<Rightarrow> raw_country" where
  "country_of n r p cc =
     \<lparr>raw_name = Some n, raw_capital = None, raw_region = Some r,
      raw_population = Some (JInt p),
      raw_currencies = Some [\<lparr>code = Some cc\<rparr>], raw_flag = None\<rparr>"

definition doc_of ::
  "string \<Rightarrow> string \<Rightarrow> int \<Rightarrow> string \<Rightarrow> real option \<Rightarrow> real option \<Rightarrow> datetime \<Rightarrow> country_doc" where
  "doc_of n r p cc er gdp ts =
     \<lparr>name = Some n, capital = None, region = Some r, population = JInt p,
      currency_code = Some cc,
      exchange_rate = er, estimated_gdp = gdp, flag_url = None, last_refreshed_at = ts\<rparr>"

definition example_rates :: "string \<rightharpoonup> real" where
  "example_rates = [''TST'' \<mapsto> 2, ''ZRO'' \<mapsto> 0]"

text \<open>A payload of three countries: one with a mapped rate, one whose rate is exactly
  zero, one whose code the mapping does not have (and whose name has parentheses, as
  the provider writes it).\<close>

definition example_env :: env where
  "example_env =
     \<lparr>countries_http = Json [country_of ''Testland'' ''Africa'' 1000000 ''TST'',
                              country_of ''Nullrate'' ''Asia'' 500 ''ZRO'',
                              country_of ''Korea (Republic of)'' ''Asia'' 51780579 ''KRW''],
      rates_http = Json \<lparr>rates = Some example_rates\<rparr>,
      utcnow = 7,
      uniform_draws = (\<lambda>k. midpoint)\<rparr>"

text \<open>The state that one refresh with \<open>example_env\<close> leaves, starting from nothing.\<close>

definition example_world :: world where
  "example_world =
     \<lparr>countries_collection =
        [(0, doc_of ''Testland'' ''Africa'' 1000000 ''TST'' (Some 2) (Some 750000000) 7),
         (1, doc_of ''Nullrate'' ''Asia'' 500 ''ZRO'' (Some 0) None 7),
         (2, doc_of ''Korea (Republic of)'' ''Asia'' 51780579 ''KRW'' None (Some 0) 7)],
      metadata_collection = Some 7,
      summary_png = Some \<lparr>summary_total = 3, summary_timestamp = 7,
        summary_top = [doc_of ''Testland'' ''Africa'' 1000000 ''TST'' (Some 2) (Some 750000000) 7,
                       doc_of ''Korea (Republic of)'' ''Asia'' 51780579 ''KRW'' None (Some 0) 7]\<rparr>,
      next_id = 3\<rparr>"

text \<open>Six records with the estimated GDP 0, as the merge step writes them for countries
  whose code is not in the mapping.\<close>

definition zero_gdp :: "string \<Rightarrow> country_doc" where
  "zero_gdp n = doc_of n ''Oceania'' 10 ''XXX'' None (Some 0) 7"

definition six_zero :: "country_doc list" where
  "six_zero = map zero_gdp [''A'', ''B'', ''C'', ''D'', ''E'', ''F'']"

text \<open>A record of the countries provider with every key absent.\<close>

definition bare_country :: raw_country where
  "bare_country =
     \<lparr>raw_name = None, raw_capital = None, raw_region = None, raw_population = None,
      raw_currencies = None, raw_flag = None\<rparr>"

text \<open>The example payload with a rates envelope that has no key \<^verbatim>\<open>rates\<close>, and the
  state that one refresh leaves then.\<close>

definition no_rates_env :: env where
  "no_rates_env = example_env\<lparr>rates_http := Json \<lparr>rates = None\<rparr>\<rparr>"

definition no_rates_world :: world where
  "no_rates_world =
     \<lparr>countries_collection =
        [(0, doc_of ''Testland'' ''Africa'' 1000000 ''TST'' None (Some 0) 7),
         (1, doc_of ''Nullrate'' ''Asia'' 500 ''ZRO'' None (Some 0) 7),
         (2, doc_of ''Korea (Republic of)'' ''Asia'' 51780579 ''KRW'' None (Some 0) 7)],
      metadata_collection = Some 7,
      summary_png = Some \<lparr>summary_total = 3, summary_timestamp = 7,
        summary_top = [doc_of ''Testland'' ''Africa'' 1000000 ''TST'' None (Some 0) 7,
                       doc_of ''Nullrate'' ''Asia'' 500 ''ZRO'' None (Some 0) 7,
                       doc_of ''Korea (Republic of)'' ''Asia'' 51780579 ''KRW'' None (Some 0) 7]\<rparr>,
      next_id = 3\<rparr>"

text \<open>Six countries whose currency code the mapping does not have.\<close>

definition six_env :: env where
  "six_env =
     \<lparr>countries_http =
        Json (map (\<lambda>n. country_of n ''Oceania'' 10 ''XXX'') [''A'', ''B'', ''C'', ''D'', ''E'', ''F'']),
      rates_http = Json \<lparr>rates = Some example_rates\<rparr>,
      utcnow = 7,
      uniform_draws = (\<lambda>k. midpoint)\<rparr>"

text \<open>A country whose key \<^verbatim>\<open>population\<close> holds the given JSON value.\<close>

definition country_with_population :: "string \<Rightarrow> json \<Rightarrow> string \<Rightarrow> raw_country" where
  "country_with_population n v cc =
     \<lparr>raw_name = Some n, raw_capital = None, raw_region = None, raw_population = Some v,
      raw_currencies = Some [\<lparr>code = Some cc\<rparr>], raw_flag = None\<rparr>"

text \<open>The example payload fetched again at the clock reading 20, and the state that this
  second refresh leaves when it starts from \<open>example_world\<close>: the records of Testland and
  Nullrate are overwritten in place; the pattern of \<^verbatim>\<open>Korea (Republic of)\<close> does not match
  the stored name, so the old record stays and a second one is inserted.\<close>

definition later_env :: env where
  "later_env = example_env\<lparr>utcnow := 20\<rparr>"

definition later_world :: world where
  "later_world =
     \<lparr>countries_collection =
        [(0, doc_of ''Testland'' ''Africa'' 1000000 ''TST'' (Some 2) (Some 750000000) 20),
         (1, doc_of ''Nullrate'' ''Asia'' 500 ''ZRO'' (Some 0) None 20),
         (2, doc_of ''Korea (Republic of)'' ''Asia'' 51780579 ''KRW'' None (Some 0) 7),
         (5, doc_of ''Korea (Republic of)'' ''Asia'' 51780579 ''KRW'' None (Some 0) 20)],
      metadata_collection = Some 20,
      summary_png = Some \<lparr>summary_total = 3, summary_timestamp = 20,
        summary_top = [doc_of ''Testland'' ''Africa'' 1000000 ''TST'' (Some 2) (Some 750000000) 20,
                       doc_of ''Korea (Republic of)'' ''Asia'' 51780579 ''KRW'' None (Some 0) 20]\<rparr>,
      next_id = 6\<rparr>"

section \<open>Auxiliary facts\<close>

subsection \<open>The merge step\<close>

lemmas process_defs = process_country_def Let_def getitem0_def dict_getitem_def
  calculate_estimated_gdp_def truediv_def

lemma mul_float_multipliable:
  "multipliable v \<Longrightarrow> \<exists>x. mul_float v f = Inr x"
  by (cases v) (auto simp: multipliable_def float_of_int_def)

lemma mul_float_raises:
  "\<not> multipliable v \<Longrightarrow> mul_float v f = Inl TypeError \<or> mul_float v f = Inl OverflowError"
  by (cases v) (auto simp: multipliable_def float_of_int_def)

lemma process_country_returns:
  assumes "first_rate xr c = None \<or> first_rate xr c = Some 0 \<or> multipliable (read_population c)"
  shows "\<exists>doc k'. process_country xr ts u k c = (Inr doc, k')"
proof (cases "multipliable (read_population c)")
  case True
  then obtain x where
    "mul_float (case raw_population c of None \<Rightarrow> JInt 0 | Some p \<Rightarrow> p)
       (uniform 1000 2000 (u k)) = Inr x"
    using mul_float_multipliable unfolding read_population_def by blast
  then show ?thesis
    by (auto simp: process_defs split: option.splits list.splits sum.splits prod.splits)
next
  case False
  with assms have "first_rate xr c = None \<or> first_rate xr c = Some 0" by simp
  then show ?thesis
    by (auto simp: process_defs first_rate_def
        split: option.splits list.splits sum.splits prod.splits if_splits)
qed

lemma process_country_raises:
  assumes "first_rate xr c = Some r" and "r \<noteq> 0" and "\<not> multipliable (read_population c)"
  shows "process_country xr ts u k c = (Inl TypeError, Suc k) \<or>
         process_country xr ts u k c = (Inl OverflowError, Suc k)"
proof -
  from assms(3) have
    "mul_float (case raw_population c of None \<Rightarrow> JInt 0 | Some p \<Rightarrow> p)
       (uniform 1000 2000 (u k)) = Inl TypeError \<or>
     mul_float (case raw_population c of None \<Rightarrow> JInt 0 | Some p \<Rightarrow> p)
       (uniform 1000 2000 (u k)) = Inl OverflowError"
    using mul_float_raises unfolding read_population_def by blast
  with assms(1,2) show ?thesis
    by (auto simp: process_defs first_rate_def
        split: option.splits list.splits sum.splits prod.splits if_splits)
qed

lemma process_country_fields:
  assumes "process_country xr ts u k c = (Inr doc, k')"
  shows "name doc = raw_name c" "capital doc = raw_capital c" "region doc = raw_region c"
    "flag_url doc = raw_flag c" "last_refreshed_at doc = ts"
    "population doc = read_population c"
    "currency_code doc = (case raw_currencies c of None \<Rightarrow> None | Some [] \<Rightarrow> None | Some (cur # _) \<Rightarrow> code cur)"
  using assms
  by (auto simp: process_defs read_population_def
      split: option.splits list.splits sum.splits prod.splits if_splits)

lemma process_country_merge_rule:
  assumes "process_country xr ts u k c = (Inr doc, k')"
  shows "merge_rule xr doc"
  using assms
  by (auto simp: merge_rule_def process_defs split: option.splits list.splits sum.splits prod.splits if_splits)

lemma process_country_rate:
  assumes "process_country xr ts u k c = (Inr doc, k')"
  shows "exchange_rate doc = first_rate xr c"
  using assms
  by (auto simp: process_defs first_rate_def
      split: option.splits list.splits sum.splits prod.splits if_splits)

lemma process_country_gdp:
  assumes "process_country xr ts u k c = (Inr doc, k')" "exchange_rate doc = Some r" "r \<noteq> 0"
  shows "\<exists>x. mul_float (population doc) (uniform 1000 2000 (u k)) = Inr x \<and>
           estimated_gdp doc = Some (x / r) \<and> k' = Suc k"
  using assms
  by (auto simp: process_defs split: option.splits list.splits sum.splits prod.splits if_splits)

lemma position_bounds: "0 \<le> position t \<and> position t \<le> 1"
  by transfer simp

lemma uniform_bounds: "1000 \<le> uniform 1000 2000 t \<and> uniform 1000 2000 t \<le> 2000"
  using position_bounds [of t] by (simp add: uniform_def)

subsection \<open>The loop over the payload\<close>

lemma upsert_set:
  "x \<in> set (upsert p d fresh xs) \<Longrightarrow> x \<in> set xs \<or> snd x = d"
  by (induction xs) (auto split: if_splits)


lemma upsert_first_match:
  "List.find (\<lambda>x. p (snd x)) xs = Some x \<Longrightarrow> (fst x, d) \<in> set (upsert p d fresh xs)"
  by (induction xs) (auto split: if_splits)

lemma upsert_no_match:
  "List.find (\<lambda>x. p (snd x)) xs = None \<Longrightarrow> upsert p d fresh xs = xs @ [(fresh, d)]"
  by (induction xs) (auto split: if_splits)


lemma update_one_upsert_written:
  assumes "update_one_upsert pattern d w = Some (Inr w')"
  shows "metadata_collection w' = metadata_collection w"
    and "summary_png w' = summary_png w"
    and "x \<in> set (countries_collection w') \<Longrightarrow> x \<in> set (countries_collection w) \<or> snd x = d"
  using assms
  by (auto simp: update_one_upsert_def split: option.splits sum.splits dest: upsert_set)

lemma produced_Cons: "produced xr ts u cs d \<Longrightarrow> produced xr ts u (c # cs) d"
  by (auto simp: produced_def)

lemma produced_head:
  assumes "process_country xr ts u k c = (Inr d, k')"
  shows "produced xr ts u (c # cs) d"
proof -
  have "fst (process_country xr ts u k c) = Inr d" using assms by simp
  then show ?thesis unfolding produced_def by auto
qed

lemma upsert_all_frame:
  "upsert_all xr ts u cs k ps w = Some (r, w') \<Longrightarrow>
     metadata_collection w' = metadata_collection w \<and> summary_png w' = summary_png w"
proof (induction cs arbitrary: k ps w)
  case Nil
  then show ?case by simp
next
  case (Cons c cs)
  then show ?case
    by (auto split: prod.splits sum.splits option.splits dest: update_one_upsert_written)
qed

lemma upsert_all_stored:
  "upsert_all xr ts u cs k ps w = Some (r, w') \<Longrightarrow> x \<in> set (countries_collection w') \<Longrightarrow>
     x \<in> set (countries_collection w) \<or> produced xr ts u cs (snd x)"
proof (induction cs arbitrary: k ps w)
  case Nil
  then show ?case by simp
next
  case (Cons c cs)
  obtain res k' where pc: "process_country xr ts u k c = (res, k')" by (cases "process_country xr ts u k c")
  show ?case
  proof (cases res)
    case (Inl e)
    with Cons.prems pc show ?thesis by simp
  next
    case (Inr d)
    note d = this
    show ?thesis
    proof (cases "update_one_upsert (anchored (format_name (raw_name c))) d w")
      case None
      with Cons.prems pc d show ?thesis by simp
    next
      case (Some a)
      show ?thesis
      proof (cases a)
        case (Inl e)
        with Cons.prems pc d Some show ?thesis by simp
      next
        case (Inr w1)
        with Cons.prems pc d Some
        have rec: "upsert_all xr ts u cs k' (ps @ [d]) w1 = Some (r, w')" by simp
        from Cons.IH[OF rec Cons.prems(2)]
        consider "x \<in> set (countries_collection w1)" | "produced xr ts u cs (snd x)" by blast
        then show ?thesis
        proof cases
          case 1
          with update_one_upsert_written(3)[OF Some[unfolded Inr]]
          have "x \<in> set (countries_collection w) \<or> snd x = d" by blast
          with pc d show ?thesis by (auto intro: produced_head)
        next
          case 2
          then show ?thesis by (simp add: produced_Cons)
        qed
      qed
    qed
  qed
qed

lemma upsert_all_processed:
  "upsert_all xr ts u cs k ps w = Some (Inr ps', w') \<Longrightarrow> d \<in> set ps' \<Longrightarrow>
     d \<in> set ps \<or> produced xr ts u cs d"
proof (induction cs arbitrary: k ps w)
  case Nil
  then show ?case by simp
next
  case (Cons c cs)
  from Cons.prems(1) obtain d0 k' w1 where
    pc: "process_country xr ts u k c = (Inr d0, k')" and
    rec: "upsert_all xr ts u cs k' (ps @ [d0]) w1 = Some (Inr ps', w')"
    by (auto split: prod.splits sum.splits option.splits)
  from Cons.IH[OF rec Cons.prems(2)] pc show ?case
    by (auto intro: produced_head produced_Cons)
qed

lemma upsert_all_length:
  "upsert_all xr ts u cs k ps w = Some (Inr ps', w') \<Longrightarrow> length ps' = length ps + length cs"
proof (induction cs arbitrary: k ps w)
  case Nil
  then show ?case by simp
next
  case (Cons c cs)
  from Cons.prems(1) obtain d0 k' w1 where
    rec: "upsert_all xr ts u cs k' (ps @ [d0]) w1 = Some (Inr ps', w')"
    by (auto split: prod.splits sum.splits option.splits)
  from Cons.IH[OF rec] show ?case by simp
qed

subsection \<open>Stable sorting in descending order\<close>

lemma filter_key_three_way:
  fixes k v :: "'k::linorder"
  shows "[x \<leftarrow> xs. f x < k \<and> f x = v] @ [x \<leftarrow> xs. f x = k \<and> f x = v] @ [x \<leftarrow> xs. k < f x \<and> f x = v]
         = [x \<leftarrow> xs. f x = v]"
proof (cases v k rule: linorder_cases)
  case less
  then have "\<And>x. (f x < k \<and> f x = v) = (f x = v)" "\<And>x. (f x = k \<and> f x = v) = False"
    "\<And>x. (k < f x \<and> f x = v) = False" by auto
  then show ?thesis by simp
next
  case equal
  then have "\<And>x. (f x < k \<and> f x = v) = False" "\<And>x. (f x = k \<and> f x = v) = (f x = v)"
    "\<And>x. (k < f x \<and> f x = v) = False" by auto
  then show ?thesis by simp
next
  case greater
  then have "\<And>x. (f x < k \<and> f x = v) = False" "\<And>x. (f x = k \<and> f x = v) = False"
    "\<And>x. (k < f x \<and> f x = v) = (f x = v)" by auto
  then show ?thesis by simp
qed

lemma sort_key_pivot:
  fixes f :: "'a \<Rightarrow> 'k::linorder"
  shows "sort_key f xs =
    sort_key f [x \<leftarrow> xs. f x < k] @ [x \<leftarrow> xs. f x = k] @ sort_key f [x \<leftarrow> xs. k < f x]"
    (is "_ = ?parts")
proof (rule properties_for_sort_key)
  show "mset ?parts = mset xs"
    by (induction xs) auto
next
  show "sorted (map f ?parts)"
    by (auto simp: sorted_append intro: sorted_map_same)
next
  fix l
  have "[x \<leftarrow> ?parts. f x = f l] = [x \<leftarrow> xs. f x = f l]"
    by (simp add: sort_key_stable conj_commute filter_key_three_way)
  moreover have "\<And>x. (f l = f x) = (f x = f l)" by auto
  ultimately show "[x \<leftarrow> ?parts. f l = f x] = [x \<leftarrow> xs. f l = f x]" by simp
qed

lemma sorted_reverse_pivot:
  fixes f :: "'a \<Rightarrow> 'k::linorder"
  shows "sorted_reverse f xs =
    sorted_reverse f [x \<leftarrow> xs. k < f x] @ [x \<leftarrow> xs. f x = k] @ sorted_reverse f [x \<leftarrow> xs. f x < k]"
  unfolding sorted_reverse_def
  by (subst sort_key_pivot[of f "rev xs" k]) (simp add: rev_filter)

lemma length_sorted_reverse: "length (sorted_reverse f xs) = length xs"
  by (simp add: sorted_reverse_def)

lemma set_sorted_reverse: "set (sorted_reverse f xs) = set xs"
  by (simp add: sorted_reverse_def)

lemma in_take_after_prefix: "length pre < n \<Longrightarrow> c \<in> set (take n (pre @ c # post))"
  by (cases "n - length pre") auto

lemma sorted_reverse_position:
  fixes f :: "'a \<Rightarrow> 'k::linorder"
  shows "sorted_reverse f (as @ c # bs) =
    (sorted_reverse f [x \<leftarrow> as @ c # bs. f c < f x] @ [x \<leftarrow> as. f x = f c]) @
    c # ([x \<leftarrow> bs. f x = f c] @ sorted_reverse f [x \<leftarrow> as @ c # bs. f x < f c])"
  by (subst sorted_reverse_pivot[of f "as @ c # bs" "f c"]) simp

lemma in_take_sorted_reverse:
  fixes f :: "'a \<Rightarrow> 'k::linorder"
  assumes "length [x \<leftarrow> as @ c # bs. f c < f x] + length [x \<leftarrow> as. f x = f c] < n"
  shows "c \<in> set (take n (sorted_reverse f (as @ c # bs)))"
proof -
  have "length (sorted_reverse f [x \<leftarrow> as @ c # bs. f c < f x] @ [x \<leftarrow> as. f x = f c]) < n"
    using assms by (simp add: length_sorted_reverse)
  then show ?thesis
    by (subst sorted_reverse_position) (rule in_take_after_prefix)
qed

subsection \<open>The summary's selection and patterns without metacharacters\<close>

lemma top_five_eligible:
  assumes "estimated_gdp c \<noteq> None"
    and "length [x \<leftarrow> as @ c # bs. estimated_gdp c < estimated_gdp x]
          + length [x \<leftarrow> as. estimated_gdp x = estimated_gdp c] < 5"
  shows "c \<in> set (sorted_countries (as @ c # bs))"
proof -
  let ?E = "\<lambda>xs. [x \<leftarrow> xs. estimated_gdp x \<noteq> None]"
  have split: "?E (as @ c # bs) = ?E as @ c # ?E bs"
    using assms(1) by simp
  have "[x \<leftarrow> ?E (as @ c # bs). estimated_gdp c < estimated_gdp x]
        = [x \<leftarrow> as @ c # bs. estimated_gdp c < estimated_gdp x]"
    unfolding filter_filter using assms(1)
    by (intro filter_cong) (auto simp: less_option_def split: option.splits)
  moreover have "[x \<leftarrow> ?E as. estimated_gdp x = estimated_gdp c] = [x \<leftarrow> as. estimated_gdp x = estimated_gdp c]"
    unfolding filter_filter using assms(1)
    by (intro filter_cong) auto
  ultimately have "length [x \<leftarrow> ?E as @ c # ?E bs. estimated_gdp c < estimated_gdp x]
          + length [x \<leftarrow> ?E as. estimated_gdp x = estimated_gdp c] < 5"
    using assms(2) unfolding split by simp
  then have "c \<in> set (take 5 (sorted_reverse estimated_gdp (?E as @ c # ?E bs)))"
    by (rule in_take_sorted_reverse)
  then show ?thesis
    unfolding sorted_countries_def split .
qed

lemma top_five_subset:
  "c \<in> set (sorted_countries countries) \<Longrightarrow> c \<in> set countries \<and> estimated_gdp c \<noteq> None"
  unfolding sorted_countries_def
  by (auto dest!: in_set_takeD simp: set_sorted_reverse)

lemma compile_body_plain:
  "\<not> list_ex metachar r \<Longrightarrow> compile_body r d = (if d = 0 then Some (map Lit r) else None)"
  by (induction r) (auto simp: metachar_def)

lemma compile_regex_plain:
  assumes "\<not> list_ex metachar r"
  shows "compile_regex (anchored r) = Some (Inr (map Lit r))"
proof -
  have "\<not> list_ex unmodelled_char r"
    using assms by (auto simp: list_ex_iff metachar_def)
  then show ?thesis
    using assms by (simp add: compile_regex_def anchored_def compile_body_plain)
qed

lemma match_items_plain:
  "match_items (map Lit r) s = (ci_equal r s \<or> (\<exists>s'. s = s' @ [newline] \<and> ci_equal r s'))"
proof (induction r arbitrary: s)
  case Nil
  then show ?case by (auto simp: ci_equal_def)
next
  case (Cons a r)
  show ?case
  proof (cases s)
    case Nil
    then show ?thesis by (simp add: ci_equal_def)
  next
    case (Cons c cs)
    have "(\<exists>s'. c # cs = s' @ [newline] \<and> ci_equal (a # r) s')
          = (ascii_lower a = ascii_lower c \<and> (\<exists>t. cs = t @ [newline] \<and> ci_equal r t))"
      by (auto simp: ci_equal_def Cons_eq_append_conv)
    then show ?thesis
      using Cons Cons.IH[of cs] by (auto simp: ci_equal_def)
  qed
qed

lemma field_matches_plain:
  assumes "no_final_newline v"
  shows "field_matches (map Lit r) v = (case v of None \<Rightarrow> False | Some s \<Rightarrow> ci_equal r s)"
  using assms
  by (auto simp: field_matches_def no_final_newline_def match_items_plain split: option.splits)

subsection \<open>The whole refresh\<close>





lemma upsert_all_succeeds:
  assumes "names_accepted cs"
    and "\<forall>c\<in>set cs. first_rate xr c = None \<or> first_rate xr c = Some 0 \<or>
           multipliable (read_population c)"
  shows "\<exists>ps' w'. upsert_all xr ts u cs k ps w = Some (Inr ps', w')"
  using assms
proof (induction cs arbitrary: k ps w)
  case Nil
  then show ?case by simp
next
  case (Cons c cs)
  obtain d k' where run: "process_country xr ts u k c = (Inr d, k')"
    using process_country_returns Cons.prems(2) by (metis list.set_intros(1))
  from Cons.prems(1) obtain items where
    pat: "compile_regex (anchored (format_name (raw_name c))) = Some (Inr items)"
    and rest: "names_accepted cs"
    by (auto simp: names_accepted_def split: option.splits sum.splits)
  from pat obtain w1 where
    "update_one_upsert (anchored (format_name (raw_name c))) d w = Some (Inr w1)"
    by (simp add: update_one_upsert_def)
  with run Cons.IH[OF rest, of k' "ps @ [d]" w1] Cons.prems(2) show ?case by simp
qed


lemma refresh_countries_stored:
  assumes "refresh_countries e w = Some (r, w')"
    and "fetch_countries_data (countries_http e) = Inr payload"
    and "fetch_exchange_rates (rates_http e) = Inr xr"
    and "x \<in> set (countries_collection w')"
  shows "x \<in> set (countries_collection w) \<or> produced xr (utcnow e) (uniform_draws e) payload (snd x)"
proof -
  from assms(1-3) obtain r1 w1 where
    loop: "upsert_all xr (utcnow e) (uniform_draws e) payload 0 [] w = Some (r1, w1)"
    and same: "countries_collection w' = countries_collection w1"
    by (auto simp: refresh_countries_def Let_def split: sum.splits option.splits prod.splits)
  from upsert_all_stored[OF loop] assms(4) same show ?thesis by simp
qed

lemma refresh_countries_written:
  assumes "refresh_countries e w = Some (r, w')"
    and "x \<in> set (countries_collection w')" and "x \<notin> set (countries_collection w)"
  obtains payload xr where
    "fetch_countries_data (countries_http e) = Inr payload"
    "fetch_exchange_rates (rates_http e) = Inr xr"
    "produced xr (utcnow e) (uniform_draws e) payload (snd x)"
proof (cases "fetch_countries_data (countries_http e)")
  case (Inl ex)
  with assms show ?thesis by (simp add: refresh_countries_def)
next
  case (Inr payload)
  note payload = this
  show ?thesis
  proof (cases "fetch_exchange_rates (rates_http e)")
    case (Inl ex)
    with assms payload show ?thesis by (simp add: refresh_countries_def)
  next
    case (Inr xr)
    from refresh_countries_stored[OF assms(1) payload Inr assms(2)] assms(3)
    have "produced xr (utcnow e) (uniform_draws e) payload (snd x)" by simp
    with payload Inr show ?thesis by (rule that)
  qed
qed

lemma produced_merge_rule: "produced xr ts u cs d \<Longrightarrow> merge_rule xr d"
  unfolding produced_def
  by (metis process_country_merge_rule prod.collapse)


subsection \<open>Queries with plain parameters\<close>

lemma compile_condition_plain:
  assumes "plain_param param"
  shows "compile_condition (query_condition param)
    = Some (Inr (case param of None \<Rightarrow> (\<lambda>v. True)
                 | Some p \<Rightarrow> if p = [] then (\<lambda>v. True) else field_matches (map Lit p)))"
  using assms
  by (auto simp: compile_condition_def query_condition_def plain_param_def compile_regex_plain
      split: option.splits)

lemma condition_is_exact_filter:
  assumes "no_final_newline v"
  shows "(case param of None \<Rightarrow> (\<lambda>v. True)
          | Some p \<Rightarrow> if p = [] then (\<lambda>v. True) else field_matches (map Lit p)) v
         = exact_filter param v"
  using assms
  by (auto simp: exact_filter_def field_matches_plain split: option.splits)

lemma sort_criteria_unrecognised:
  "sort_param \<notin> Some ` set recognised_sorts \<Longrightarrow> sort_criteria sort_param = []"
  by (auto simp: sort_criteria_def recognised_sorts_def split: option.splits)

text \<open>A sort value outside the recognised ones is ignored, whatever the filters.\<close>

lemma unrecognised_sort_ignored:
  assumes "sort_param \<notin> Some ` set recognised_sorts"
  shows "get_countries w region_param currency_param sort_param
       = get_countries w region_param currency_param None"
proof -
  have given: "sort_criteria sort_param = []"
    using assms by (rule sort_criteria_unrecognised)
  have absent: "sort_criteria None = []"
    by (simp add: sort_criteria_def)
  show ?thesis
    unfolding get_countries_def given absent by (rule refl)
qed

text \<open>With parameters free of metacharacters, and stored values that do not end in a
  newline, the listing is the case-insensitive exact filter.\<close>

lemma list_plain_filters:
  assumes "plain_param region_param" and "plain_param currency_param"
    and "sort_param \<notin> Some ` set recognised_sorts"
    and "\<forall>x\<in>set (countries_collection w).
           no_final_newline (region (snd x)) \<and> no_final_newline (currency_code (snd x))"
  shows "get_countries w region_param currency_param sort_param
    = Some (Inr [x \<leftarrow> countries_collection w.
                   exact_filter region_param (region (snd x)) \<and>
                   exact_filter currency_param (currency_code (snd x))])"
proof -
  have "[x \<leftarrow> countries_collection w.
          (case region_param of None \<Rightarrow> (\<lambda>v. True)
           | Some p \<Rightarrow> if p = [] then (\<lambda>v. True) else field_matches (map Lit p)) (region (snd x)) \<and>
          (case currency_param of None \<Rightarrow> (\<lambda>v. True)
           | Some p \<Rightarrow> if p = [] then (\<lambda>v. True) else field_matches (map Lit p))
             (currency_code (snd x))]
        = [x \<leftarrow> countries_collection w.
             exact_filter region_param (region (snd x)) \<and>
             exact_filter currency_param (currency_code (snd x))]"
    using assms(4) by (intro filter_cong refl) (simp add: condition_is_exact_filter)
  then show ?thesis
    by (simp add: get_countries_def find_query_def compile_condition_plain[OF assms(1)]
        compile_condition_plain[OF assms(2)] sort_criteria_unrecognised[OF assms(3)])
qed

text \<open>For a requested name without metacharacters, and stored names that do not end in a
  newline, \<^verbatim>\<open>get_country\<close> is the case-insensitive exact lookup.\<close>

lemma get_country_plain:
  assumes "\<not> list_ex metachar n"
    and "\<forall>x\<in>set (countries_collection w). no_final_newline (name (snd x))"
  shows "get_country w n =
    (case List.find (\<lambda>x. case name (snd x) of None \<Rightarrow> False | Some s \<Rightarrow> ci_equal n s)
            (countries_collection w) of
       None \<Rightarrow> Some (Inl (HTTPException 404 \<lparr>error = ''Country not found'', details = None\<rparr>))
     | Some country \<Rightarrow> Some (Inr country))"
proof -
  have "List.find (\<lambda>x. field_matches (map Lit n) (name (snd x))) (countries_collection w)
      = List.find (\<lambda>x. case name (snd x) of None \<Rightarrow> False | Some s \<Rightarrow> ci_equal n s)
          (countries_collection w)"
    using assms(2) by (intro find_cong refl) (simp add: field_matches_plain)
  then show ?thesis
    by (simp add: get_country_def compile_regex_plain[OF assms(1)])
qed

subsection \<open>Evaluation of the concrete inputs\<close>

lemmas eval_defs = refresh_countries_def fetch_countries_data_def fetch_exchange_rates_def
  process_country_def Let_def getitem0_def dict_getitem_def calculate_estimated_gdp_def truediv_def
  float_of_int_def uniform_def position.rep_eq midpoint.rep_eq end_point.rep_eq
  update_one_upsert_def compile_regex_def anchored_def format_name_def unmodelled_char_def
  field_matches_def generate_summary_image_def sorted_countries_def sorted_reverse_def ascii_lower_def
  newline_def refresh_handler_def empty_world_def country_of_def doc_of_def example_rates_def
  example_env_def example_world_def no_rates_env_def
  no_rates_world_def six_env_def six_zero_def zero_gdp_def later_env_def later_world_def
  country_with_population_def

lemma example_refresh:
  "refresh_countries example_env empty_world
     = Some (Inr \<lparr>message = ''Countries data refreshed successfully'', total_countries = 3,
                  timestamp = 7\<rparr>, example_world)"
  by (simp add: eval_defs)


section \<open>The claims\<close>

subsection \<open>C1: the derived fields of a stored record\<close>

text \<open>
  Claim C1, as amended. For every country record that one refresh cycle writes to the
  store, \<^verbatim>\<open>exchange_rate\<close> is the rate mapping's entry for the record's currency code, and
  \<^verbatim>\<open>estimated_gdp\<close> is empty if and only if \<^verbatim>\<open>exchange_rate\<close> is present and exactly zero;
  when \<^verbatim>\<open>exchange_rate\<close> is empty (no currency, or a code that the mapping does not have),
  \<^verbatim>\<open>estimated_gdp\<close> is the number 0.
\<close>

theorem refresh_merge_rule:
  assumes "refresh_countries e w = Some (r, w')"
    and "fetch_exchange_rates (rates_http e) = Inr xr"
    and "x \<in> set (countries_collection w')" and "x \<notin> set (countries_collection w)"
  shows "merge_rule xr (snd x) \<and>
    (estimated_gdp (snd x) = None \<longleftrightarrow> exchange_rate (snd x) = Some 0) \<and>
    (exchange_rate (snd x) = None \<longrightarrow> estimated_gdp (snd x) = Some 0)"
proof -
  from refresh_countries_written[OF assms(1,3,4)] assms(2)
  obtain payload where "produced xr (utcnow e) (uniform_draws e) payload (snd x)"
    by auto
  then have "merge_rule xr (snd x)" by (rule produced_merge_rule)
  then show ?thesis
    by (auto simp: merge_rule_def split: option.splits if_splits)
qed

text \<open>Witness for C1: the records that the refresh of \<open>example_env\<close> writes for the
  country with the zero rate and for the country with the unmapped code.\<close>

theorem refresh_merge_rule_witness:
  "refresh_countries example_env empty_world
     = Some (Inr \<lparr>message = ''Countries data refreshed successfully'', total_countries = 3,
                  timestamp = 7\<rparr>, example_world) \<and>
   merge_rule example_rates (doc_of ''Nullrate'' ''Asia'' 500 ''ZRO'' (Some 0) None 7) \<and>
   merge_rule example_rates (doc_of ''Korea (Republic of)'' ''Asia'' 51780579 ''KRW'' None (Some 0) 7)"
proof -
  have fetched_rates: "fetch_exchange_rates (rates_http example_env) = Inr example_rates"
    by (simp add: example_env_def fetch_exchange_rates_def)
  have stored:
    "(1, doc_of ''Nullrate'' ''Asia'' 500 ''ZRO'' (Some 0) None 7) \<in> set (countries_collection example_world)"
    "(2, doc_of ''Korea (Republic of)'' ''Asia'' 51780579 ''KRW'' None (Some 0) 7) \<in> set (countries_collection example_world)"
    by (simp_all add: example_world_def)
  have fresh: "\<And>x. x \<notin> set (countries_collection empty_world)"
    by (simp add: empty_world_def)
  from refresh_merge_rule[OF example_refresh fetched_rates stored(1) fresh]
       refresh_merge_rule[OF example_refresh fetched_rates stored(2) fresh]
  show ?thesis using example_refresh by simp
qed

text \<open>
  Counterexample to C1 as stated: after the refresh of \<open>example_env\<close> the stored record
  of the country with the unmapped code \<^verbatim>\<open>KRW\<close> has no \<^verbatim>\<open>exchange_rate\<close> but the
  \<^verbatim>\<open>estimated_gdp\<close> 0, and the record of the country whose rate is exactly zero has the
  \<^verbatim>\<open>exchange_rate\<close> 0 stored and no \<^verbatim>\<open>estimated_gdp\<close>.
\<close>

theorem unmapped_and_zero_rate_records:
  "refresh_countries example_env empty_world
     = Some (Inr \<lparr>message = ''Countries data refreshed successfully'', total_countries = 3,
                  timestamp = 7\<rparr>, example_world) \<and>
   map (\<lambda>x. (currency_code (snd x), exchange_rate (snd x), estimated_gdp (snd x)))
     (countries_collection example_world)
     = [(Some ''TST'', Some 2, Some 750000000), (Some ''ZRO'', Some 0, None),
        (Some ''KRW'', None, Some 0)]"
  by (simp add: eval_defs)

subsection \<open>C2: a failed fetch leaves the store alone\<close>

text \<open>
  Claim C2, as amended. If the countries fetch, or the rates fetch after a successful
  countries fetch, fails with an \<^verbatim>\<open>httpx.HTTPError\<close> (timeout, transport error, a status
  that is not 2xx), the refresh returns the 503 failure whose details name the failing
  provider; if the fetch fails because the body is not JSON, the refresh returns the
  generic 500 failure. In each case the persistent state is returned as it was: no
  country is upserted and the status marker is not updated, since both fetches come
  before the first write.
\<close>

theorem refresh_fetch_failure:
  "refresh_countries (e\<lparr>countries_http := HTTPError msg\<rparr>) w
     = Some (Inl (HTTPException 503
          \<lparr>error = ''External data source unavailable'',
           details = Some (''Could not fetch data from restcountries.com: '' @ msg)\<rparr>), w) \<and>
   refresh_countries (e\<lparr>countries_http := Json payload, rates_http := HTTPError msg\<rparr>) w
     = Some (Inl (HTTPException 503
          \<lparr>error = ''External data source unavailable'',
           details = Some (''Could not fetch data from open.er-api.com: '' @ msg)\<rparr>), w) \<and>
   refresh_countries (e\<lparr>countries_http := InvalidJSON msg\<rparr>) w
     = Some (Inl (HTTPException 500
          \<lparr>error = ''Internal server error'', details = Some msg\<rparr>), w) \<and>
   refresh_countries (e\<lparr>countries_http := Json payload, rates_http := InvalidJSON msg\<rparr>) w
     = Some (Inl (HTTPException 500
          \<lparr>error = ''Internal server error'', details = Some msg\<rparr>), w)"
  by (simp add: refresh_countries_def fetch_countries_data_def fetch_exchange_rates_def
      refresh_handler_def)

text \<open>Counterexample to C2 as stated: the rates provider answers with a body that is
  not JSON; the fetch fails, and the refresh returns 500, not the 503 that names the
  provider. The store is unchanged.\<close>

theorem invalid_json_gives_500:
  "refresh_countries (example_env\<lparr>rates_http := InvalidJSON ''Expecting value''\<rparr>) example_world
     = Some (Inl (HTTPException 500
          \<lparr>error = ''Internal server error'', details = Some ''Expecting value''\<rparr>),
        example_world) \<and>
   refresh_countries (example_env\<lparr>rates_http := InvalidJSON ''Expecting value''\<rparr>) example_world
     \<noteq> Some (Inl (HTTPException 503
          \<lparr>error = ''External data source unavailable'',
           details = Some (''Could not fetch data from open.er-api.com: '' @ ''Expecting value'')\<rparr>),
        example_world)"
  by (simp add: refresh_countries_def fetch_countries_data_def fetch_exchange_rates_def
      refresh_handler_def example_env_def)

subsection \<open>C3: the value of the derived metric\<close>

text \<open>
  Claim C3, as amended. For every country whose first currency code is a non-empty
  string that the mapping sends to a nonzero rate, and whose population is an integer
  within the float range (an absent population counts as 0), the merge step draws one
  multiplier \<open>U = uniform 1000 2000\<close>, which lies in the closed interval \<open>[1000, 2000]\<close>
  (the end point 2000 can be drawn), and sets \<^verbatim>\<open>estimated_gdp\<close> to \<open>population * U / rate\<close>.
  With a population above zero and a rate above zero the value is strictly positive and
  lies in \<open>[population * 1000 / rate, population * 2000 / rate]\<close>, both ends included.
\<close>

theorem estimated_gdp_range:
  assumes "first_rate xr c = Some r" and "r \<noteq> 0"
    and "read_population c = JInt p" and "\<bar>p\<bar> < 2 ^ 1024 - 2 ^ 970"
  shows "\<exists>doc. process_country xr ts u k c = (Inr doc, Suc k) \<and> exchange_rate doc = Some r \<and>
     estimated_gdp doc = Some (of_int p * uniform 1000 2000 (u k) / r) \<and>
     1000 \<le> uniform 1000 2000 (u k) \<and> uniform 1000 2000 (u k) \<le> 2000 \<and>
     (0 < p \<and> 0 < r \<longrightarrow>
        strictly_positive (estimated_gdp doc) \<and>
        of_int p * 1000 / r \<le> of_int p * uniform 1000 2000 (u k) / r \<and>
        of_int p * uniform 1000 2000 (u k) / r \<le> of_int p * 2000 / r)"
proof -
  have "multipliable (read_population c)"
    using assms(3,4) by (simp add: multipliable_def)
  then obtain doc k' where run: "process_country xr ts u k c = (Inr doc, k')"
    using process_country_returns by blast
  have rate: "exchange_rate doc = Some r"
    using process_country_rate[OF run] assms(1) by simp
  have pop: "population doc = JInt p"
    using process_country_fields(6)[OF run] assms(3) by simp
  from process_country_gdp[OF run rate assms(2)] pop assms(4)
  have gdp: "estimated_gdp doc = Some (of_int p * uniform 1000 2000 (u k) / r)" and k': "k' = Suc k"
    by (auto simp: float_of_int_def)
  note U = uniform_bounds[of "u k"]
  have "0 < of_int p * uniform 1000 2000 (u k) / r \<and>
        of_int p * 1000 / r \<le> of_int p * uniform 1000 2000 (u k) / r \<and>
        of_int p * uniform 1000 2000 (u k) / r \<le> of_int p * 2000 / r"
    if "0 < p" "0 < r"
    using that U by (auto simp: divide_le_cancel field_simps)
  then show ?thesis
    using run rate gdp k' U by (auto simp: strictly_positive_def)
qed

text \<open>Witness for C3: a population of 1000000, the rate 2 and the multiplier 1500.\<close>

theorem estimated_gdp_range_witness:
  "\<exists>doc. process_country example_rates 7 (\<lambda>k. midpoint) 0
            (country_of ''Testland'' ''Africa'' 1000000 ''TST'') = (Inr doc, 1) \<and>
     estimated_gdp doc = Some 750000000 \<and> strictly_positive (estimated_gdp doc)"
  using estimated_gdp_range[of example_rates "country_of ''Testland'' ''Africa'' 1000000 ''TST''"
      2 1000000 7 "\<lambda>k. midpoint" 0]
  by (auto simp: country_of_def example_rates_def first_rate_def read_population_def
      uniform_def position.rep_eq midpoint.rep_eq)

text \<open>Counterexample to C3 as stated: with the population 0 and the rate 2 the derived
  value is 0, which is not strictly positive; and with the multiplier at its end point
  2000 the value for the population 1000000 and the rate 2 is 1000000000, which is not
  below \<open>population * 2000 / rate\<close>.\<close>

theorem zero_population_gdp_not_positive:
  "fst (process_country example_rates 7 (\<lambda>k. midpoint) 0 (country_of ''Emptyland'' ''Africa'' 0 ''TST''))
     = Inr (doc_of ''Emptyland'' ''Africa'' 0 ''TST'' (Some 2) (Some 0) 7) \<and>
   \<not> strictly_positive (estimated_gdp (doc_of ''Emptyland'' ''Africa'' 0 ''TST'' (Some 2) (Some 0) 7)) \<and>
   fst (process_country example_rates 7 (\<lambda>k. end_point) 0 (country_of ''Testland'' ''Africa'' 1000000 ''TST''))
     = Inr (doc_of ''Testland'' ''Africa'' 1000000 ''TST'' (Some 2) (Some 1000000000) 7) \<and>
   \<not> (1000000000 < real_of_int 1000000 * 2000 / 2)"
  by (simp add: eval_defs strictly_positive_def)

subsection \<open>C4: one timestamp per cycle\<close>



subsection \<open>C5: when the merge step returns\<close>

text \<open>
  Claim C5, as amended. For a raw country record of the provider's shape, the merge
  step returns a record and raises nothing whenever the first currency code is not
  mapped to a nonzero rate, or the population (0 when the key is absent) is a number
  that \<^verbatim>\<open>* float\<close> accepts: the guarded reads (\<^verbatim>\<open>currencies[0]\<close>,
  \<^verbatim>\<open>exchange_rates[currency_code]\<close>, the division by the rate) never fail. The record
  then has the population 0 for an absent key, empty \<^verbatim>\<open>currency_code\<close> and
  \<^verbatim>\<open>exchange_rate\<close> for an absent currency list, and an empty field for an absent name,
  capital, region or flag. When the first code is mapped to a nonzero rate and the
  population is present but no such number (null, a string, an integer beyond the float
  range), the step raises \<^verbatim>\<open>TypeError\<close> or \<^verbatim>\<open>OverflowError\<close>.
\<close>

theorem process_country_total:
  "(first_rate xr c = None \<or> first_rate xr c = Some 0 \<or> multipliable (read_population c) \<longrightarrow>
      (\<exists>doc k'. process_country xr ts u k c = (Inr doc, k') \<and>
         name doc = raw_name c \<and> capital doc = raw_capital c \<and> region doc = raw_region c \<and>
         flag_url doc = raw_flag c \<and> population doc = read_population c \<and>
         (raw_population c = None \<longrightarrow> population doc = JInt 0) \<and>
         (raw_currencies c = None \<longrightarrow>
            currency_code doc = None \<and> exchange_rate doc = None \<and> estimated_gdp doc = Some 0))) \<and>
   (\<forall>r. first_rate xr c = Some r \<and> r \<noteq> 0 \<and> \<not> multipliable (read_population c) \<longrightarrow>
      process_country xr ts u k c = (Inl TypeError, Suc k) \<or>
      process_country xr ts u k c = (Inl OverflowError, Suc k))"
proof (intro conjI impI allI)
  assume ok: "first_rate xr c = None \<or> first_rate xr c = Some 0 \<or> multipliable (read_population c)"
  then obtain doc k' where run: "process_country xr ts u k c = (Inr doc, k')"
    using process_country_returns by blast
  have "raw_currencies c = None \<longrightarrow> exchange_rate doc = None \<and> estimated_gdp doc = Some 0"
    using process_country_merge_rule[OF run] process_country_fields(7)[OF run]
    by (auto simp: merge_rule_def)
  moreover have "raw_population c = None \<longrightarrow> population doc = JInt 0"
    using process_country_fields(6)[OF run] by (simp add: read_population_def)
  ultimately show "\<exists>doc k'. process_country xr ts u k c = (Inr doc, k') \<and>
         name doc = raw_name c \<and> capital doc = raw_capital c \<and> region doc = raw_region c \<and>
         flag_url doc = raw_flag c \<and> population doc = read_population c \<and>
         (raw_population c = None \<longrightarrow> population doc = JInt 0) \<and>
         (raw_currencies c = None \<longrightarrow>
            currency_code doc = None \<and> exchange_rate doc = None \<and> estimated_gdp doc = Some 0)"
    using run process_country_fields[OF run] by auto
next
  fix r
  assume "first_rate xr c = Some r \<and> r \<noteq> 0 \<and> \<not> multipliable (read_population c)"
  then show "process_country xr ts u k c = (Inl TypeError, Suc k) \<or>
      process_country xr ts u k c = (Inl OverflowError, Suc k)"
    using process_country_raises by blast
qed

text \<open>Witness for C5: the record with every key absent, and a record whose population
  is the boolean \<^verbatim>\<open>true\<close> with a mapped code.\<close>

theorem process_country_total_witness:
  "(\<exists>doc k'. process_country example_rates 7 (\<lambda>k. midpoint) 0 bare_country = (Inr doc, k') \<and>
     name doc = None \<and> capital doc = None \<and> region doc = None \<and> flag_url doc = None \<and>
     population doc = JInt 0 \<and> currency_code doc = None \<and> exchange_rate doc = None \<and>
     estimated_gdp doc = Some 0) \<and>
   (\<exists>doc k'. process_country example_rates 7 (\<lambda>k. midpoint) 0
       (country_with_population ''Boolland'' (JBool True) ''TST'') = (Inr doc, k') \<and>
     population doc = JBool True)"
  using process_country_total[of example_rates bare_country 7 "\<lambda>k. midpoint" 0]
    process_country_total[of example_rates "country_with_population ''Boolland'' (JBool True) ''TST''"
      7 "\<lambda>k. midpoint" 0]
  by (auto simp: bare_country_def country_with_population_def first_rate_def read_population_def
      multipliable_def)

text \<open>Counterexample to C5 as stated: a record whose population is present and null,
  with a code mapped to the rate 2, makes the step raise \<^verbatim>\<open>TypeError\<close>, and the refresh
  of a payload with that record answers 500; a population of \<open>2^1024\<close> makes it raise
  \<^verbatim>\<open>OverflowError\<close>.\<close>

theorem null_population_raises:
  "process_country example_rates 7 (\<lambda>k. midpoint) 0
      (country_with_population ''Nulland'' JNull ''TST'') = (Inl TypeError, 1) \<and>
   process_country example_rates 7 (\<lambda>k. midpoint) 0
      (country_with_population ''Hugeland'' (JInt (2 ^ 1024)) ''TST'') = (Inl OverflowError, 1) \<and>
   refresh_countries
      (example_env\<lparr>countries_http := Json [country_with_population ''Nulland'' JNull ''TST'']\<rparr>)
      empty_world
     = Some (Inl (HTTPException 500
          \<lparr>error = ''Internal server error'',
           details = Some ''unsupported operand type(s) for *''\<rparr>), empty_world)"
  by (simp add: eval_defs)

subsection \<open>C6: lookup by name\<close>

text \<open>
  Claim C6 fails on the code: the requested name is pasted into the pattern unescaped.
  After the refresh of \<open>example_env\<close>, the lookup of \<^verbatim>\<open>Korea (Republic of)\<close>, the stored
  name itself, finds nothing (404), since the parentheses group and match no character;
  the lookup of \<^verbatim>\<open>T.stland\<close> returns the record of \<^verbatim>\<open>Testland\<close>, whose name is not equal to
  it; and the lookup of \<^verbatim>\<open>Testland)\<close> is answered with 500, not with 404, since the
  store rejects the pattern.
\<close>

theorem get_country_pattern_lookup:
  "refresh_countries example_env empty_world
     = Some (Inr \<lparr>message = ''Countries data refreshed successfully'', total_countries = 3,
                  timestamp = 7\<rparr>, example_world) \<and>
   get_country example_world ''Korea (Republic of)''
     = Some (Inl (HTTPException 404 \<lparr>error = ''Country not found'', details = None\<rparr>)) \<and>
   get_country example_world ''T.stland''
     = Some (Inr (0, doc_of ''Testland'' ''Africa'' 1000000 ''TST'' (Some 2) (Some 750000000) 7)) \<and>
   \<not> ci_equal ''T.stland'' ''Testland'' \<and>
   get_country example_world ''Testland)''
     = Some (Inl (HTTPException 500 \<lparr>error = ''Internal server error'', details = None\<rparr>))"
  by (simp add: get_country_def eval_defs ci_equal_def)

subsection \<open>C7: listing with a region filter\<close>

text \<open>
  Claim C7 fails on the code: the region filter is pasted into the pattern unescaped, as
  the name is in \<^verbatim>\<open>get_country\<close>. In the state that the refresh of \<open>example_env\<close> leaves,
  the listing with the region filter \<^verbatim>\<open>Afric.\<close> returns the record whose region is
  \<^verbatim>\<open>Africa\<close>, which does not equal the filter in any case.
\<close>

theorem region_pattern_filter:
  "get_countries example_world (Some ''Afric.'') None None
     = Some (Inr [(0, doc_of ''Testland'' ''Africa'' 1000000 ''TST'' (Some 2) (Some 750000000) 7)]) \<and>
   region (doc_of ''Testland'' ''Africa'' 1000000 ''TST'' (Some 2) (Some 750000000) 7) = Some ''Africa'' \<and>
   \<not> ci_equal ''Afric.'' ''Africa''"
  by (simp add: get_countries_def find_query_def compile_condition_def query_condition_def
      sort_criteria_def eval_defs ci_equal_def)

subsection \<open>C8: a rates envelope without the rates field\<close>

text \<open>
  Claim C8. When the rates response decodes to an envelope that has no key \<^verbatim>\<open>rates\<close>,
  \<^verbatim>\<open>fetch_exchange_rates\<close> returns the empty mapping and raises nothing; the refresh then
  goes on (given a payload whose names the store accepts as patterns), processes every
  country, and every record it writes has no \<^verbatim>\<open>exchange_rate\<close> and the \<^verbatim>\<open>estimated_gdp\<close> 0.
\<close>

theorem missing_rates_field:
  assumes "rates_http e = Json data" and "rates data = None"
    and "countries_http e = Json payload" and "names_accepted payload"
  shows "fetch_exchange_rates (rates_http e) = Inr Map.empty \<and>
    (\<exists>resp w'. refresh_countries e w = Some (Inr resp, w') \<and>
       total_countries resp = length payload \<and>
       (\<forall>x\<in>set (countries_collection w').
          x \<in> set (countries_collection w) \<or>
          (exchange_rate (snd x) = None \<and> estimated_gdp (snd x) = Some 0)))"
proof -
  have rates: "fetch_exchange_rates (rates_http e) = Inr Map.empty"
    using assms(1,2) by (simp add: fetch_exchange_rates_def)
  have countries: "fetch_countries_data (countries_http e) = Inr payload"
    using assms(3) by (simp add: fetch_countries_data_def)
  have "\<forall>c\<in>set payload. first_rate Map.empty c = None \<or> first_rate Map.empty c = Some 0 \<or>
      multipliable (read_population c)"
    by (auto simp: first_rate_def split: option.splits list.splits)
  from upsert_all_succeeds[OF assms(4) this] obtain ps w1 where
    loop: "upsert_all Map.empty (utcnow e) (uniform_draws e) payload 0 [] w = Some (Inr ps, w1)"
    by blast
  define resp where "resp = \<lparr>message = ''Countries data refreshed successfully'',
      total_countries = length ps, timestamp = utcnow e\<rparr>"
  define w' where "w' = w1\<lparr>metadata_collection := Some (utcnow e),
      summary_png := Some (generate_summary_image ps (utcnow e))\<rparr>"
  have run: "refresh_countries e w = Some (Inr resp, w')"
    using rates countries loop by (simp add: refresh_countries_def Let_def resp_def w'_def)
  have total: "total_countries resp = length payload"
    using upsert_all_length[OF loop] by (simp add: resp_def)
  have unmapped: "x \<in> set (countries_collection w) \<or>
      (exchange_rate (snd x) = None \<and> estimated_gdp (snd x) = Some 0)"
    if "x \<in> set (countries_collection w')" for x
  proof -
    from refresh_countries_stored[OF run countries rates that]
    consider "x \<in> set (countries_collection w)"
      | "produced Map.empty (utcnow e) (uniform_draws e) payload (snd x)" by blast
    then show ?thesis
    proof cases
      case 1
      then show ?thesis by simp
    next
      case 2
      then have "merge_rule Map.empty (snd x)" by (rule produced_merge_rule)
      then show ?thesis by (auto simp: merge_rule_def split: option.splits if_splits)
    qed
  qed
  show ?thesis using rates run total unmapped by blast
qed

text \<open>Witness for C8: the example payload with such an envelope.\<close>

theorem missing_rates_field_witness:
  "fetch_exchange_rates (rates_http no_rates_env) = Inr Map.empty \<and>
   refresh_countries no_rates_env empty_world
     = Some (Inr \<lparr>message = ''Countries data refreshed successfully'', total_countries = 3,
                  timestamp = 7\<rparr>, no_rates_world)"
proof -
  have "names_accepted [country_of ''Testland'' ''Africa'' 1000000 ''TST'',
                        country_of ''Nullrate'' ''Asia'' 500 ''ZRO'',
                        country_of ''Korea (Republic of)'' ''Asia'' 51780579 ''KRW'']"
    by (simp add: names_accepted_def eval_defs)
  from missing_rates_field[of no_rates_env "\<lparr>rates = None\<rparr>" _ empty_world, OF _ _ _ this]
  have "fetch_exchange_rates (rates_http no_rates_env) = Inr Map.empty"
    by (simp add: no_rates_env_def example_env_def)
  moreover have "refresh_countries no_rates_env empty_world
     = Some (Inr \<lparr>message = ''Countries data refreshed successfully'', total_countries = 3,
                  timestamp = 7\<rparr>, no_rates_world)"
    by (simp add: no_rates_env_def no_rates_world_def eval_defs)
  ultimately show ?thesis by simp
qed

subsection \<open>C9: the top five of the summary\<close>

text \<open>
  Claim C9, as amended. The top five of the summary are records of the processed list
  whose \<^verbatim>\<open>estimated_gdp\<close> is not empty, so a record with an empty \<^verbatim>\<open>estimated_gdp\<close> (a rate
  that is exactly zero) never appears. A record whose \<^verbatim>\<open>estimated_gdp\<close> is a number (the
  value 0 of a country without a mapped code included) appears whenever fewer than five
  records either have a larger \<^verbatim>\<open>estimated_gdp\<close> or have an equal one and stand earlier in
  the processed list. (In the order on optional values the empty value lies below every
  number, so only records with a number count as larger.)
\<close>

theorem top_five_selection:
  "(\<forall>c\<in>set (sorted_countries countries). c \<in> set countries \<and> estimated_gdp c \<noteq> None) \<and>
   (\<forall>as c bs. countries = as @ c # bs \<and> estimated_gdp c \<noteq> None \<and>
       length [x \<leftarrow> countries. estimated_gdp c < estimated_gdp x]
         + length [x \<leftarrow> as. estimated_gdp x = estimated_gdp c] < 5
       \<longrightarrow> c \<in> set (sorted_countries countries))"
  using top_five_subset top_five_eligible by blast

text \<open>Witness for C9: the fifth of six records with the value 0 appears; a record with
  an empty value does not.\<close>

theorem top_five_selection_witness:
  "zero_gdp ''E'' \<in> set (sorted_countries six_zero) \<and>
   doc_of ''Nullrate'' ''Asia'' 500 ''ZRO'' (Some 0) None 7
     \<notin> set (sorted_countries (doc_of ''Nullrate'' ''Asia'' 500 ''ZRO'' (Some 0) None 7 # six_zero))"
proof -
  have "six_zero = map zero_gdp [''A'', ''B'', ''C'', ''D''] @ zero_gdp ''E'' # [zero_gdp ''F'']"
    by (simp add: six_zero_def)
  moreover have "estimated_gdp (zero_gdp ''E'') \<noteq> None"
    by (simp add: zero_gdp_def doc_of_def)
  moreover have "length [x \<leftarrow> six_zero. estimated_gdp (zero_gdp ''E'') < estimated_gdp x]
      + length [x \<leftarrow> map zero_gdp [''A'', ''B'', ''C'', ''D''].
                  estimated_gdp x = estimated_gdp (zero_gdp ''E'')] < 5"
    by (simp add: six_zero_def zero_gdp_def doc_of_def)
  ultimately have "zero_gdp ''E'' \<in> set (sorted_countries six_zero)"
    using top_five_selection[of six_zero] by blast
  moreover have "estimated_gdp (doc_of ''Nullrate'' ''Asia'' 500 ''ZRO'' (Some 0) None 7) = None"
    by (simp add: doc_of_def)
  then have "doc_of ''Nullrate'' ''Asia'' 500 ''ZRO'' (Some 0) None 7
     \<notin> set (sorted_countries (doc_of ''Nullrate'' ''Asia'' 500 ''ZRO'' (Some 0) None 7 # six_zero))"
    using top_five_selection[of "doc_of ''Nullrate'' ''Asia'' 500 ''ZRO'' (Some 0) None 7 # six_zero"]
    by blast
  ultimately show ?thesis by simp
qed

text \<open>Counterexample to C9 as stated: the refresh of six countries with an unmapped code
  gives six records with the value 0; no record has a larger value, yet the sixth is
  not among the top five of the summary.\<close>

theorem sixth_zero_gdp_left_out:
  "map_option (\<lambda>rw. map_option summary_top (summary_png (snd rw)))
     (refresh_countries six_env empty_world)
     = Some (Some (sorted_countries six_zero)) \<and>
   zero_gdp ''F'' \<in> set six_zero \<and>
   estimated_gdp (zero_gdp ''F'') = Some 0 \<and>
   length [x \<leftarrow> six_zero. estimated_gdp (zero_gdp ''F'') < estimated_gdp x] < 5 \<and>
   sorted_countries six_zero = map zero_gdp [''A'', ''B'', ''C'', ''D'', ''E''] \<and>
   zero_gdp ''F'' \<notin> set (sorted_countries six_zero)"
  by (simp add: eval_defs)

subsection \<open>C10: an empty query parameter\<close>

text \<open>
  Claim C10. An empty string for the region or for the currency parameter of the
  listing adds no condition: the result is the one obtained without the parameter, and
  with both empty and no sort it is the whole collection.
\<close>

theorem empty_query_parameter:
  "get_countries w (Some []) currency_param sort_param = get_countries w None currency_param sort_param \<and>
   get_countries w region_param (Some []) sort_param = get_countries w region_param None sort_param \<and>
   get_countries w (Some []) (Some []) None = Some (Inr (countries_collection w))"
  by (simp add: get_countries_def query_condition_def find_query_def compile_condition_def
      sort_criteria_def)

end
